theory Spec2Isabelle
  imports Main "HOL-Library.Char_ord" "HOL-Library.List_Lexorder"
begin

section \<open>Python exceptions and the chess library's data\<close>

text \<open>
  The exceptions that the code of \<^verbatim>\<open>strategies.py\<close> and the library calls it makes can
  raise. A function that can raise returns \<open>exn + 'a\<close>, with \<open>Inl\<close> the exception.
  Text is ASCII: a \<open>string\<close> is a list of 8-bit characters, compared character by
  character as Python compares \<^verbatim>\<open>str\<close> values.
\<close>

datatype exn =
    EngineError string
  | NotImplementedError string
  | ValueError
  | IndexError
  | StopIteration
  | TypeError
  | AssertionError
  | InvalidStateError
  | RecursionError
  | AttributeError
  | TimeoutError

definition bind_exn :: "exn + 'a \<Rightarrow> ('a \<Rightarrow> exn + 'b) \<Rightarrow> exn + 'b" where
  "bind_exn r f = (case r of Inl x \<Rightarrow> Inl x | Inr v \<Rightarrow> f v)"

subsection \<open>\<^verbatim>\<open>chess.Move\<close>\<close>

text \<open>
  \<^verbatim>\<open>chess.Move\<close> of the python-chess library, which the repository imports: a dataclass of
  two squares (integers, 0 for a1 up to 63 for h8) and two optional piece types
  (1 pawn, 2 knight, 3 bishop, 4 rook, 5 queen, 6 king). The library is not part of the
  repository; \<open>from_uci\<close> and \<open>uci\<close> below follow its \<^verbatim>\<open>Move.from_uci\<close> and \<^verbatim>\<open>Move.uci\<close>.
\<close>

record Move =
  from_square :: nat
  to_square :: nat
  promotion :: "nat option"
  drop_piece :: "nat option"

definition FILE_NAMES :: "char list" where
  "FILE_NAMES = ''abcdefgh''"

definition RANK_NAMES :: "char list" where
  "RANK_NAMES = ''12345678''"

definition SQUARE_NAMES :: "string list" where
  "SQUARE_NAMES = concat (map (\<lambda>r. map (\<lambda>f. [f, r]) FILE_NAMES) RANK_NAMES)"

definition PIECE_SYMBOLS :: "string option list" where
  "PIECE_SYMBOLS = [None, Some ''p'', Some ''n'', Some ''b'', Some ''r'', Some ''q'', Some ''k'']"

text \<open>\<^verbatim>\<open>list.index\<close>: the position of the first occurrence, \<^verbatim>\<open>ValueError\<close> when there is none.\<close>

fun index_from :: "nat \<Rightarrow> 'a list \<Rightarrow> 'a \<Rightarrow> exn + nat" where
  "index_from i [] v = Inl ValueError"
| "index_from i (x # xs) v = (if x = v then Inr i else index_from (Suc i) xs v)"

definition list_index :: "'a list \<Rightarrow> 'a \<Rightarrow> exn + nat" where
  "list_index xs v = index_from 0 xs v"

text \<open>\<^verbatim>\<open>xs[i]\<close> for an index that is not negative: \<^verbatim>\<open>IndexError\<close> out of range.\<close>

definition getitem :: "'a list \<Rightarrow> nat \<Rightarrow> exn + 'a" where
  "getitem xs i = (if i < length xs then Inr (xs ! i) else Inl IndexError)"

definition lower_char :: "char \<Rightarrow> char" where
  "lower_char c =
     (if CHR ''A'' \<le> c \<and> c \<le> CHR ''Z'' then char_of (of_char c + (32::nat)) else c)"

definition upper_char :: "char \<Rightarrow> char" where
  "upper_char c =
     (if CHR ''a'' \<le> c \<and> c \<le> CHR ''z'' then char_of (of_char c - (32::nat)) else c)"

definition null_move :: Move where
  "null_move = \<lparr>from_square = 0, to_square = 0, promotion = None, drop_piece = None\<rparr>"

definition from_uci :: "string \<Rightarrow> exn + Move" where
  "from_uci uci_text =
     (if uci_text = ''0000'' then Inr null_move
      else if length uci_text = 4 \<and> uci_text ! 1 = CHR ''@'' then
        bind_exn (list_index PIECE_SYMBOLS (Some (map lower_char (take 1 uci_text)))) (\<lambda>d.
        bind_exn (list_index SQUARE_NAMES (drop 2 uci_text)) (\<lambda>square.
          Inr \<lparr>from_square = square, to_square = square,
               promotion = None, drop_piece = Some d\<rparr>))
      else if 4 \<le> length uci_text \<and> length uci_text \<le> 5 then
        bind_exn (list_index SQUARE_NAMES (take 2 uci_text)) (\<lambda>f.
        bind_exn (list_index SQUARE_NAMES (take 2 (drop 2 uci_text))) (\<lambda>t.
        bind_exn (if length uci_text = 5
                  then bind_exn (list_index PIECE_SYMBOLS (Some [uci_text ! 4])) (\<lambda>p. Inr (Some p))
                  else Inr None) (\<lambda>p.
          if f = t then Inl ValueError
          else Inr \<lparr>from_square = f, to_square = t, promotion = p, drop_piece = None\<rparr>)))
      else Inl ValueError)"

text \<open>
  \<^verbatim>\<open>piece_symbol\<close> reads \<^verbatim>\<open>PIECE_SYMBOLS[piece_type]\<close>; \<open>truthy\<close> is Python's truth value of
  an optional integer (\<^verbatim>\<open>None\<close> and 0 are false).
\<close>

definition piece_symbol :: "nat \<Rightarrow> exn + string" where
  "piece_symbol piece_type =
     bind_exn (getitem PIECE_SYMBOLS piece_type)
       (\<lambda>s. case s of None \<Rightarrow> Inl TypeError | Some t \<Rightarrow> Inr t)"

definition truthy :: "nat option \<Rightarrow> bool" where
  "truthy v = (case v of None \<Rightarrow> False | Some n \<Rightarrow> n \<noteq> 0)"

definition uci :: "Move \<Rightarrow> exn + string" where
  "uci m =
     (if truthy (drop_piece m) then
        bind_exn (piece_symbol (the (drop_piece m))) (\<lambda>s.
        bind_exn (getitem SQUARE_NAMES (to_square m)) (\<lambda>t.
          Inr (map upper_char s @ ''@'' @ t)))
      else if truthy (promotion m) then
        bind_exn (getitem SQUARE_NAMES (from_square m)) (\<lambda>f.
        bind_exn (getitem SQUARE_NAMES (to_square m)) (\<lambda>t.
        bind_exn (piece_symbol (the (promotion m))) (\<lambda>s.
          Inr (f @ t @ s))))
      else if from_square m \<noteq> 0 \<or> to_square m \<noteq> 0 then
        bind_exn (getitem SQUARE_NAMES (from_square m)) (\<lambda>f.
        bind_exn (getitem SQUARE_NAMES (to_square m)) (\<lambda>t.
          Inr (f @ t)))
      else Inr ''0000'')"

subsection \<open>\<^verbatim>\<open>chess.Board\<close> and \<^verbatim>\<open>chess.engine.PlayResult\<close>\<close>

text \<open>
  Of a \<^verbatim>\<open>chess.Board\<close> the code reads the move stack, the legal moves (in the order in
  which the library's generator yields them) and the algebraic notation \<^verbatim>\<open>board.san\<close>
  of a move. The rules of chess that produce them are the library's; a board is given
  by these three.
\<close>

record Board =
  move_stack :: "Move list"
  legal_moves :: "Move list"
  san :: "Move \<Rightarrow> string"

text \<open>
  \<^verbatim>\<open>PlayResult(move, ponder, info=None, *, draw_offered=False, resigned=False)\<close>; the
  library stores \<^verbatim>\<open>info or {}\<close>.
\<close>

record PlayResult =
  move :: "Move option"
  ponder :: "Move option"
  info :: "(string \<times> string) list"
  draw_offered :: bool
  resigned :: bool

definition PlayResult_new :: "Move option \<Rightarrow> Move option \<Rightarrow> bool \<Rightarrow> PlayResult" where
  "PlayResult_new m p r =
     \<lparr>move = m, ponder = p, info = [], draw_offered = False, resigned = r\<rparr>"

section \<open>The example strategies\<close>

text \<open>
  \<^verbatim>\<open>MinimalEngine.search(self, board, time_limit, ponder, draw_offered)\<close> only raises.
  The time limit is the library's \<^verbatim>\<open>Limit\<close> object, of which nothing is read.
\<close>

definition MinimalEngine_search :: "Board \<Rightarrow> 'limit \<Rightarrow> bool \<Rightarrow> bool \<Rightarrow> exn + PlayResult" where
  "MinimalEngine_search board time_limit ponder_flag draw_offered_flag =
     Inl (NotImplementedError ''The search method is not implemented'')"

text \<open>
  \<^verbatim>\<open>random.choice(seq)\<close> raises \<^verbatim>\<open>IndexError\<close> on an empty sequence and otherwise returns
  \<^verbatim>\<open>seq[randbelow(len(seq))]\<close>. The generator's draw is the argument \<open>rng\<close>, reduced
  below the length.
\<close>

definition random_choice :: "nat \<Rightarrow> 'a list \<Rightarrow> exn + 'a" where
  "random_choice rng seq = (if seq = [] then Inl IndexError else Inr (seq ! (rng mod length seq)))"

definition RandomMove_search :: "nat \<Rightarrow> Board \<Rightarrow> exn + PlayResult" where
  "RandomMove_search rng board =
     bind_exn (random_choice rng (legal_moves board))
       (\<lambda>m. Inr (PlayResult_new (Some m) None False))"

text \<open>
  \<^verbatim>\<open>list.sort(key=...)\<close> computes the key of every element first (the first key that
  raises ends the call), then sorts the elements by their keys, keeping the order of
  elements with equal keys.
\<close>

fun sort_keys :: "('a \<Rightarrow> exn + 'k) \<Rightarrow> 'a list \<Rightarrow> exn + 'k list" where
  "sort_keys key [] = Inr []"
| "sort_keys key (x # xs) =
     bind_exn (key x) (\<lambda>k. bind_exn (sort_keys key xs) (\<lambda>ks. Inr (k # ks)))"

definition list_sort :: "('a \<Rightarrow> exn + 'k::linorder) \<Rightarrow> 'a list \<Rightarrow> exn + 'a list" where
  "list_sort key xs =
     bind_exn (sort_keys key xs) (\<lambda>ks. Inr (map snd (sort_key fst (zip ks xs))))"

definition Alphabetical_search :: "Board \<Rightarrow> exn + PlayResult" where
  "Alphabetical_search board =
     bind_exn (list_sort (\<lambda>m. Inr (san board m)) (legal_moves board)) (\<lambda>moves.
     bind_exn (getitem moves 0) (\<lambda>m.
       Inr (PlayResult_new (Some m) None False)))"

definition FirstMove_search :: "Board \<Rightarrow> exn + PlayResult" where
  "FirstMove_search board =
     bind_exn (list_sort uci (legal_moves board)) (\<lambda>moves.
     bind_exn (getitem moves 0) (\<lambda>m.
       Inr (PlayResult_new (Some m) None False)))"

section \<open>\<^verbatim>\<open>FillerEngine\<close>\<close>

text \<open>
  A \<^verbatim>\<open>FillerEngine\<close> object is its instance dictionary. \<^verbatim>\<open>__init__\<close> stores the three
  attributes \<^verbatim>\<open>id\<close>, \<^verbatim>\<open>name\<close> and \<^verbatim>\<open>main_engine\<close>; the main engine is an object of type
  \<open>'m\<close>. Python looks an attribute up in the instance dictionary and on the type first
  and calls \<^verbatim>\<open>__getattr__\<close> only when that lookup finds nothing. The names found on the
  type (the class body's \<^verbatim>\<open>__init__\<close> and \<^verbatim>\<open>__getattr__\<close> and what \<^verbatim>\<open>object\<close> provides)
  are the argument \<open>class_attrs\<close>. Inside \<^verbatim>\<open>__getattr__\<close> the read of \<^verbatim>\<open>self.main_engine\<close> is
  an attribute access of its own: on an object that does not store \<^verbatim>\<open>main_engine\<close> it
  enters \<^verbatim>\<open>__getattr__\<close> again without end, which Python stops with \<^verbatim>\<open>RecursionError\<close>.
\<close>

datatype 'm pyvalue =
    PyNone
  | PyStr string
  | PyDict "(string \<times> 'm pyvalue) list"
  | PyObject 'm

type_synonym 'm FillerEngine = "string \<rightharpoonup> 'm pyvalue"

definition FillerEngine_init :: "'m \<Rightarrow> string option \<Rightarrow> 'm FillerEngine" where
  "FillerEngine_init main_engine name =
     (let nm = (case name of None \<Rightarrow> PyNone | Some s \<Rightarrow> PyStr s)
      in [''id'' \<mapsto> PyDict [(''name'', nm)],
          ''name'' \<mapsto> nm,
          ''main_engine'' \<mapsto> PyObject main_engine])"

text \<open>
  What an attribute access yields: a stored value, an attribute of the type, or the
  closure \<^verbatim>\<open>method\<close> that \<^verbatim>\<open>__getattr__\<close> builds, which holds \<^verbatim>\<open>method_name\<close> and
  \<^verbatim>\<open>main_engine\<close>.
\<close>

datatype 'm attribute =
    Stored "'m pyvalue"
  | ClassAttribute string
  | Forwarder string "'m pyvalue"

definition FillerEngine_getattr :: "'m FillerEngine \<Rightarrow> string \<Rightarrow> exn + 'm attribute" where
  "FillerEngine_getattr self method_name =
     (case self ''main_engine'' of
        None \<Rightarrow> Inl RecursionError
      | Some main_engine \<Rightarrow> Inr (Forwarder method_name main_engine))"

definition getattribute ::
  "string list \<Rightarrow> 'm FillerEngine \<Rightarrow> string \<Rightarrow> exn + 'm attribute" where
  "getattribute class_attrs self attr =
     (case self attr of
        Some v \<Rightarrow> Inr (Stored v)
      | None \<Rightarrow>
          if attr \<in> set class_attrs then Inr (ClassAttribute attr)
          else FillerEngine_getattr self attr)"

text \<open>
  Calling the closure: \<^verbatim>\<open>main_engine.notify(method_name, *args, **kwargs)\<close>. The main
  engine's \<^verbatim>\<open>notify\<close> is the argument \<open>notify\<close>; a value that is no object has no such
  method.
\<close>

definition method_call ::
  "('m \<Rightarrow> string \<Rightarrow> 'a list \<Rightarrow> (string \<times> 'a) list \<Rightarrow> 'r) \<Rightarrow>
     string \<Rightarrow> 'm pyvalue \<Rightarrow> 'a list \<Rightarrow> (string \<times> 'a) list \<Rightarrow> exn + 'r" where
  "method_call notify method_name main_engine args kwargs =
     (case main_engine of
        PyObject m \<Rightarrow> Inr (notify m method_name args kwargs)
      | _ \<Rightarrow> Inl AttributeError)"

text \<open>
  Accessing an attribute and calling what the access yields. A stored string,
  dictionary or \<^verbatim>\<open>None\<close> is not callable: \<^verbatim>\<open>TypeError\<close>. The call of a stored object or of
  an attribute of the type is that object's own and does not go through the closure:
  \<open>None\<close>.
\<close>

definition access_and_call ::
  "('m \<Rightarrow> string \<Rightarrow> 'a list \<Rightarrow> (string \<times> 'a) list \<Rightarrow> 'r) \<Rightarrow> string list \<Rightarrow>
     'm FillerEngine \<Rightarrow> string \<Rightarrow> 'a list \<Rightarrow> (string \<times> 'a) list \<Rightarrow> (exn + 'r) option" where
  "access_and_call notify class_attrs self attr args kwargs =
     (case getattribute class_attrs self attr of
        Inl x \<Rightarrow> Some (Inl x)
      | Inr (Forwarder n m) \<Rightarrow> Some (method_call notify n m args kwargs)
      | Inr (Stored (PyObject m)) \<Rightarrow> None
      | Inr (Stored _) \<Rightarrow> Some (Inl TypeError)
      | Inr (ClassAttribute _) \<Rightarrow> None)"

section \<open>The protocol adapter \<^verbatim>\<open>CO456Protocol\<close>\<close>

subsection \<open>The engine object and the library's command objects\<close>

text \<open>
  Of the protocol object the code reads and writes \<^verbatim>\<open>initialized\<close> (set to \<^verbatim>\<open>False\<close> by
  the library's \<^verbatim>\<open>Protocol.__init__\<close>) and \<^verbatim>\<open>first_move\<close>; \<open>stdin_lines\<close> are the lines
  that \<^verbatim>\<open>send_line\<close> has written to the child process, oldest first.
\<close>

record CO456Protocol =
  initialized :: bool
  first_move :: string
  stdin_lines :: "string list"

definition CO456Protocol_init :: CO456Protocol where
  "CO456Protocol_init = \<lparr>initialized = False, first_move = [], stdin_lines = []\<rparr>"

text \<open>
  \<^verbatim>\<open>chess.engine.BaseCommand\<close> of the python-chess library: a command has a state, a
  future \<^verbatim>\<open>result\<close> and a future \<^verbatim>\<open>finished\<close>. The library is not part of the
  repository; the definitions of this subsection follow its \<^verbatim>\<open>BaseCommand\<close> and
  \<^verbatim>\<open>Protocol.communicate\<close> for one call at a time on a running child process, with no
  other command active or queued and no cancellation.
\<close>

datatype CommandState = NEW | ACTIVE | CANCELLING | DONE

datatype 'r future = Pending | Result 'r | Exception exn

record 'r BaseCommand =
  state :: CommandState
  result :: "'r future"
  finished :: bool

definition BaseCommand_init :: "'r BaseCommand" where
  "BaseCommand_init = \<lparr>state = NEW, result = Pending, finished = False\<rparr>"

text \<open>
  A statement of a command's method works on the engine and the command and may raise:
  it returns the exception, if any, and the state reached (what was written before the
  exception stays written).
\<close>

type_synonym 'r stmt = "CO456Protocol \<times> 'r BaseCommand \<Rightarrow> exn option \<times> CO456Protocol \<times> 'r BaseCommand"

definition skip :: "'r stmt" where
  "skip s = (None, s)"

definition raise :: "exn \<Rightarrow> 'r stmt" where
  "raise x s = (Some x, s)"

definition seq :: "'r stmt \<Rightarrow> 'r stmt \<Rightarrow> 'r stmt" where
  "seq a b s = (case a s of (None, s') \<Rightarrow> b s' | (Some x, s') \<Rightarrow> (Some x, s'))"

definition send_line :: "string \<Rightarrow> 'r stmt" where
  "send_line line s =
     (case s of (e, c) \<Rightarrow> (None, (e\<lparr>stdin_lines := stdin_lines e @ [line]\<rparr>, c)))"

definition set_result :: "'r \<Rightarrow> 'r stmt" where
  "set_result v s =
     (case s of (e, c) \<Rightarrow>
        if result c = Pending then (None, (e, c\<lparr>result := Result v\<rparr>))
        else (Some InvalidStateError, s))"

definition set_finished :: "'r stmt" where
  "set_finished s =
     (case s of (e, c) \<Rightarrow>
        if state c \<noteq> ACTIVE \<and> state c \<noteq> CANCELLING then (Some AssertionError, s)
        else
          let c1 = (if result c = Pending
                    then c\<lparr>result := Exception
                           (EngineError ''engine command finished before returning result'')\<rparr>
                    else c)
          in if finished c1 then (Some InvalidStateError, (e, c1))
             else (None, (e, c1\<lparr>finished := True, state := DONE\<rparr>)))"

definition handle_exception :: "exn \<Rightarrow> 'r stmt" where
  "handle_exception exc s =
     (case s of (e, c) \<Rightarrow>
        (None, (e, c\<lparr>result := (if result c = Pending then Exception exc else result c),
                      finished := True\<rparr>)))"

text \<open>
  A command class gives the three methods that \<^verbatim>\<open>BaseCommand\<close> lets a subclass
  override. The defaults: \<^verbatim>\<open>check_initialized\<close> raises on an engine that is not
  initialized, \<^verbatim>\<open>line_received\<close> does nothing.
\<close>

record 'r command_class =
  check_initialized :: "'r stmt"
  start :: "'r stmt"
  line_received :: "string \<Rightarrow> 'r stmt"

definition BaseCommand_check_initialized :: "'r stmt" where
  "BaseCommand_check_initialized s =
     (case s of (e, c) \<Rightarrow>
        if \<not> initialized e
        then (Some (EngineError ''tried to run command, but engine is not initialized''), s)
        else (None, s))"

definition BaseCommand_line_received :: "string \<Rightarrow> 'r stmt" where
  "BaseCommand_line_received line = skip"

text \<open>
  \<^verbatim>\<open>BaseCommand._start\<close> and \<^verbatim>\<open>BaseCommand._line_received\<close>: an \<^verbatim>\<open>EngineError\<close> of the
  method becomes the command's result; any other exception leaves the method.
\<close>

definition catch_EngineError :: "'r stmt \<Rightarrow> 'r stmt" where
  "catch_EngineError a s =
     (case a s of
        (Some (EngineError msg), s') \<Rightarrow> handle_exception (EngineError msg) s'
      | r \<Rightarrow> r)"

definition command_start :: "'r command_class \<Rightarrow> 'r stmt" where
  "command_start cls s =
     (case s of (e, c) \<Rightarrow>
        if state c \<noteq> NEW then (Some AssertionError, s)
        else catch_EngineError (seq (check_initialized cls) (start cls))
               (e, c\<lparr>state := ACTIVE\<rparr>))"

definition command_line_received :: "'r command_class \<Rightarrow> string \<Rightarrow> 'r stmt" where
  "command_line_received cls line s =
     (case s of (e, c) \<Rightarrow>
        if state c \<noteq> ACTIVE \<and> state c \<noteq> CANCELLING then (Some AssertionError, s)
        else catch_EngineError (line_received cls line) s)"

text \<open>
  \<^verbatim>\<open>Protocol.communicate\<close> starts the command and awaits its result. \<open>lines\<close> are the
  lines the child process writes while the call is awaited, in order; each is handed to
  the command as long as the result is pending. An exception that leaves
  \<^verbatim>\<open>line_received\<close> ends in the event loop, which logs it, and the call keeps waiting.
  When the lines run out with the result still pending the call stays blocked.
\<close>

datatype 'r outcome = Returned 'r | Raised exn | Blocked

fun await_result ::
  "'r command_class \<Rightarrow> string list \<Rightarrow> CO456Protocol \<times> 'r BaseCommand \<Rightarrow>
     CO456Protocol \<times> 'r outcome" where
  "await_result cls [] (e, c) =
     (case result c of
        Result v \<Rightarrow> (e, Returned v)
      | Exception x \<Rightarrow> (e, Raised x)
      | Pending \<Rightarrow> (e, Blocked))"
| "await_result cls (l # ls) (e, c) =
     (case result c of
        Result v \<Rightarrow> (e, Returned v)
      | Exception x \<Rightarrow> (e, Raised x)
      | Pending \<Rightarrow> await_result cls ls (snd (command_line_received cls l (e, c))))"

definition communicate ::
  "'r command_class \<Rightarrow> string list \<Rightarrow> CO456Protocol \<Rightarrow> CO456Protocol \<times> 'r outcome" where
  "communicate cls lines e =
     (case command_start cls (e, BaseCommand_init) of
        (Some x, (e', c')) \<Rightarrow> (e', Raised x)
      | (None, s') \<Rightarrow> await_result cls lines s')"

subsection \<open>\<^verbatim>\<open>initialize\<close>, \<^verbatim>\<open>configure\<close> and \<^verbatim>\<open>play\<close>\<close>

text \<open>
  Each method builds its command class and hands it to \<^verbatim>\<open>communicate\<close>. The calls to
  \<^verbatim>\<open>logging.info\<close> write to the log only. Of its parameters \<^verbatim>\<open>play\<close> reads the board
  alone; the limit, \<^verbatim>\<open>game\<close>, \<^verbatim>\<open>info\<close>, \<^verbatim>\<open>ponder\<close>, \<^verbatim>\<open>draw_offered\<close>, \<^verbatim>\<open>root_moves\<close> and
  \<^verbatim>\<open>options\<close> are not used.
\<close>

definition InitializeCommand :: "unit command_class" where
  "InitializeCommand =
     \<lparr>check_initialized = (\<lambda>s. case s of (e, c) \<Rightarrow>
          if initialized e then (Some (EngineError ''engine already initialized''), s)
          else (None, s)),
      start = seq (\<lambda>s. case s of (e, c) \<Rightarrow> (None, (e\<lparr>initialized := True\<rparr>, c)))
                (seq (set_result ()) set_finished),
      line_received = BaseCommand_line_received\<rparr>"

definition initialize :: "string list \<Rightarrow> CO456Protocol \<Rightarrow> CO456Protocol \<times> unit outcome" where
  "initialize = communicate InitializeCommand"

text \<open>
  A \<^verbatim>\<open>ConfigMapping\<close> maps option names to strings, integers, booleans or \<^verbatim>\<open>None\<close>.
  \<^verbatim>\<open>send_line\<close> appends a newline to its argument, which raises \<^verbatim>\<open>TypeError\<close> when the
  argument is no string.
\<close>

datatype ConfigValue = ConfigStr string | ConfigInt int | ConfigBool bool | ConfigNone

definition ConfigureCommand :: "(string \<rightharpoonup> ConfigValue) \<Rightarrow> unit command_class" where
  "ConfigureCommand options =
     \<lparr>check_initialized = BaseCommand_check_initialized,
      start =
        (case options ''color'' of
           None \<Rightarrow> skip
         | Some v \<Rightarrow>
             seq (case v of ConfigStr line \<Rightarrow> send_line line | _ \<Rightarrow> raise TypeError)
                 (if v = ConfigStr ''black'' then seq (set_result ()) set_finished else skip)),
      line_received = (\<lambda>line.
        seq (\<lambda>s. case s of (e, c) \<Rightarrow> (None, (e\<lparr>first_move := line\<rparr>, c)))
            (seq (set_result ()) set_finished))\<rparr>"

definition configure ::
  "(string \<rightharpoonup> ConfigValue) \<Rightarrow> string list \<Rightarrow> CO456Protocol \<Rightarrow> CO456Protocol \<times> unit outcome" where
  "configure options = communicate (ConfigureCommand options)"

definition PlayCommand :: "Board \<Rightarrow> PlayResult command_class" where
  "PlayCommand board =
     \<lparr>check_initialized = BaseCommand_check_initialized,
      start = (\<lambda>s. case s of (e, c) \<Rightarrow>
        if first_move e \<noteq> [] then
          (case from_uci (first_move e) of
             Inl x \<Rightarrow> raise x s
           | Inr m \<Rightarrow>
               seq (set_result (PlayResult_new (Some m) None False))
                 (seq (\<lambda>s. case s of (e, c) \<Rightarrow> (None, (e\<lparr>first_move := []\<rparr>, c)))
                      set_finished) s)
        else if move_stack board \<noteq> [] then
          (case uci (last (move_stack board)) of
             Inl x \<Rightarrow> raise x s
           | Inr line \<Rightarrow> send_line line s)
        else skip s),
      line_received = (\<lambda>line.
        seq (if line = ''invalid'' then
               (case legal_moves board of
                  [] \<Rightarrow> raise StopIteration
                | m # _ \<Rightarrow> set_result (PlayResult_new (Some m) None True))
             else
               (case from_uci line of
                  Inl x \<Rightarrow> raise x
                | Inr m \<Rightarrow> set_result (PlayResult_new (Some m) None False)))
            set_finished)\<rparr>"

definition play ::
  "Board \<Rightarrow> string list \<Rightarrow> CO456Protocol \<Rightarrow> CO456Protocol \<times> PlayResult outcome" where
  "play board = communicate (PlayCommand board)"

subsection \<open>The caller \<^verbatim>\<open>CO456Engine.search\<close>\<close>






section \<open>Example inputs\<close>

text \<open>
  Concrete moves, boards, engines and options at which the theorems below are
  evaluated: the position after 1. e4 with two of Black's replies, a position with no
  legal move, the starting position, an initialized engine, and an initialized engine
  that holds a first move.
\<close>

definition example_e2e4 :: Move where
  "example_e2e4 = \<lparr>from_square = 12, to_square = 28, promotion = None, drop_piece = None\<rparr>"

definition example_e7e5 :: Move where
  "example_e7e5 = \<lparr>from_square = 52, to_square = 36, promotion = None, drop_piece = None\<rparr>"

definition example_d7d5 :: Move where
  "example_d7d5 = \<lparr>from_square = 51, to_square = 35, promotion = None, drop_piece = None\<rparr>"

definition example_board :: Board where
  "example_board =
     \<lparr>move_stack = [example_e2e4], legal_moves = [example_e7e5, example_d7d5],
      san = (\<lambda>m. if from_square m = 52 then ''e5'' else ''d5'')\<rparr>"

definition example_board_no_moves :: Board where
  "example_board_no_moves = \<lparr>move_stack = [example_e2e4], legal_moves = [], san = (\<lambda>m. [])\<rparr>"

definition example_board_start :: Board where
  "example_board_start = \<lparr>move_stack = [], legal_moves = [example_e2e4], san = (\<lambda>m. ''e4'')\<rparr>"

definition example_engine :: CO456Protocol where
  "example_engine = \<lparr>initialized = True, first_move = [], stdin_lines = []\<rparr>"

definition example_engine_pending :: CO456Protocol where
  "example_engine_pending = \<lparr>initialized = True, first_move = ''e7e5'', stdin_lines = []\<rparr>"

definition example_command :: "PlayResult BaseCommand" where
  "example_command = \<lparr>state = ACTIVE, result = Pending, finished = False\<rparr>"

definition example_options :: "string \<rightharpoonup> ConfigValue" where
  "example_options = [''color'' \<mapsto> ConfigStr ''white'']"


definition example_filler :: "nat FillerEngine" where
  "example_filler = FillerEngine_init 0 (Some ''homemade'')"

section \<open>Auxiliary facts\<close>

lemmas stmt_defs = skip_def raise_def seq_def send_line_def set_result_def set_finished_def
  handle_exception_def catch_EngineError_def command_start_def command_line_received_def
  BaseCommand_check_initialized_def BaseCommand_line_received_def BaseCommand_init_def

lemmas square_defs = list_index_def getitem_def SQUARE_NAMES_def FILE_NAMES_def
  RANK_NAMES_def bind_exn_def

subsection \<open>Sorting\<close>

lemma sort_keys_total: "sort_keys (\<lambda>x. Inr (f x)) xs = Inr (map f xs)"
  by (induction xs) (simp_all add: bind_exn_def)

lemma map_snd_insort_key:
  "\<forall>p\<in>set ps. fst p = f (snd p) \<Longrightarrow>
     map snd (insort_key fst (f x, x) ps) = insort_key f x (map snd ps)"
  by (induction ps) auto

lemma map_snd_sort_key_zip:
  "map snd (sort_key fst (zip (map f xs) xs)) = sort_key f xs"
proof (induction xs)
  case Nil
  show ?case by simp
next
  case (Cons x xs)
  have "\<forall>p\<in>set (sort_key fst (zip (map f xs) xs)). fst p = f (snd p)"
    by (auto simp: in_set_zip)
  then show ?case using Cons by (simp add: map_snd_insort_key)
qed

lemma list_sort_total: "list_sort (\<lambda>x. Inr (f x)) xs = Inr (sort_key f xs)"
  by (simp add: list_sort_def sort_keys_total bind_exn_def map_snd_sort_key_zip)

lemma hd_sort_key_least:
  assumes "xs \<noteq> []"
  shows "hd (sort_key f xs) \<in> set xs \<and> (\<forall>y\<in>set xs. f (hd (sort_key f xs)) \<le> f y)"
proof -
  have "sort_key f xs \<noteq> []" using assms by (metis length_sort length_0_conv)
  then obtain m ms where ms: "sort_key f xs = m # ms" by (cases "sort_key f xs") auto
  have "sorted (map f (sort_key f xs))" by simp
  then have "\<forall>y\<in>set ms. f m \<le> f y" using ms by simp
  moreover have "set xs = insert m (set ms)" using ms by (metis set_sort list.simps(15))
  ultimately show ?thesis using ms by auto
qed

lemma find_filter_Cons: "filter P ys = z # zs \<Longrightarrow> find P ys = Some z"
  by (induction ys) (auto split: if_splits)

lemma hd_sort_key_first:
  assumes "xs \<noteq> []"
  shows "find (\<lambda>y. f y = f (hd (sort_key f xs))) xs = Some (hd (sort_key f xs))"
proof -
  let ?s = "sort_key f xs"
  let ?P = "\<lambda>y. f y = f (hd ?s)"
  have "?s \<noteq> []" using assms by (metis length_sort length_0_conv)
  then have "filter ?P ?s = hd ?s # filter ?P (tl ?s)" by (cases ?s) simp_all
  then have "filter ?P xs = hd ?s # filter ?P (tl ?s)" by (simp add: sort_key_stable)
  then show ?thesis by (rule find_filter_Cons)
qed

subsection \<open>Moves of the examples\<close>

lemma from_uci_e2e4: "from_uci ''e2e4'' = Inr example_e2e4"
  by (simp add: from_uci_def example_e2e4_def square_defs)

lemma from_uci_e7e5: "from_uci ''e7e5'' = Inr example_e7e5"
  by (simp add: from_uci_def example_e7e5_def square_defs)

lemma uci_e2e4: "uci example_e2e4 = Inr ''e2e4''"
  by (simp add: uci_def example_e2e4_def truthy_def square_defs)

lemma from_uci_hello: "from_uci ''hello'' = Inl ValueError"
  by (simp add: from_uci_def square_defs)

lemma from_uci_empty: "from_uci [] = Inl ValueError"
  by (simp add: from_uci_def)



subsection \<open>The play command\<close>

lemma play_start_sends:
  assumes "initialized e" "first_move e = []" "move_stack board \<noteq> []"
    "uci (last (move_stack board)) = Inr text"
  shows "command_start (PlayCommand board) (e, BaseCommand_init)
     = (None, (e\<lparr>stdin_lines := stdin_lines e @ [text]\<rparr>, BaseCommand_init\<lparr>state := ACTIVE\<rparr>))"
  using assms by (simp add: PlayCommand_def stmt_defs)

lemma play_start_first_move:
  assumes "initialized e" "first_move e \<noteq> []" "from_uci (first_move e) = Inr m"
  shows "command_start (PlayCommand board) (e, BaseCommand_init)
     = (None, (e\<lparr>first_move := []\<rparr>,
          \<lparr>state = DONE, result = Result (PlayResult_new (Some m) None False), finished = True\<rparr>))"
  using assms by (simp add: PlayCommand_def stmt_defs)

lemma play_line_resign:
  assumes "state c = ACTIVE" "result c = Pending" "\<not> finished c" "legal_moves board = m # ms"
  shows "command_line_received (PlayCommand board) ''invalid'' (e, c)
     = (None, (e, c\<lparr>result := Result (PlayResult_new (Some m) None True),
                     finished := True, state := DONE\<rparr>))"
  using assms by (simp add: PlayCommand_def stmt_defs)

lemma play_line_move:
  assumes "state c = ACTIVE" "result c = Pending" "\<not> finished c"
    "line \<noteq> ''invalid''" "from_uci line = Inr m"
  shows "command_line_received (PlayCommand board) line (e, c)
     = (None, (e, c\<lparr>result := Result (PlayResult_new (Some m) None False),
                     finished := True, state := DONE\<rparr>))"
  using assms by (simp add: PlayCommand_def stmt_defs)


lemma play_line_engine:
  "fst (snd (command_line_received (PlayCommand board) l (e, c))) = e"
  by (cases "legal_moves board"; cases "from_uci l")
     (auto simp: PlayCommand_def stmt_defs Let_def split: exn.splits)

lemma await_result_done:
  "result c = Result v \<Longrightarrow> await_result cls lines (e, c) = (e, Returned v)"
  by (cases lines) simp_all

lemma await_play_engine: "fst (await_result (PlayCommand board) lines (e, c)) = e"
proof (induction lines arbitrary: c)
  case Nil
  show ?case by (simp split: future.splits)
next
  case (Cons l ls)
  obtain x e' c' where r: "command_line_received (PlayCommand board) l (e, c) = (x, (e', c'))"
    by (metis prod_cases3)
  then have "e' = e" using play_line_engine[of board l e c] by simp
  then show ?case using Cons r by (simp split: future.splits)
qed


subsection \<open>The play command under events\<close>





subsection \<open>The configure command\<close>

lemma configure_line_stdin:
  "stdin_lines (fst (snd (command_line_received (ConfigureCommand options) l (e, c))))
     = stdin_lines e"
  by (simp add: ConfigureCommand_def stmt_defs Let_def)

lemma await_configure_stdin:
  "stdin_lines (fst (await_result (ConfigureCommand options) lines (e, c))) = stdin_lines e"
proof (induction lines arbitrary: e c)
  case Nil
  show ?case by (simp split: future.splits)
next
  case (Cons l ls)
  obtain x e' c' where r: "command_line_received (ConfigureCommand options) l (e, c) = (x, (e', c'))"
    by (metis prod_cases3)
  then have "stdin_lines e' = stdin_lines e" using configure_line_stdin[of options l e c] by simp
  then show ?case using Cons[of e' c'] r by (simp split: future.splits)
qed

section \<open>The claims\<close>

subsection \<open>C1: what a call to \<^verbatim>\<open>play\<close> sends and awaits\<close>

text \<open>
  Claim C1, as stated, says that every call to \<^verbatim>\<open>CO456Protocol.play\<close> sends the last move
  of the move stack and blocks until a line is received. It fails on an engine that
  holds a first move: \<^verbatim>\<open>PlayCommand.start\<close> returns that move at once, sends nothing
  and awaits no line. It fails as well on a board with an empty move stack, where
  nothing is sent. The two evaluations: on the example engine holding \<^verbatim>\<open>e7e5\<close> the call
  returns with no line written and none received; on the starting position nothing is
  written and the call blocks.
\<close>

theorem play_first_move_counterexample:
  "play example_board [] example_engine_pending
     = (\<lparr>initialized = True, first_move = [], stdin_lines = []\<rparr>,
        Returned (PlayResult_new (Some example_e7e5) None False))
   \<and> play example_board_start [] example_engine = (example_engine, Blocked)"
  by (simp add: play_def communicate_def play_start_first_move example_engine_pending_def
      from_uci_e7e5 example_engine_def example_board_start_def PlayCommand_def stmt_defs)

text \<open>
  Claim C1, amended: on an initialized engine that holds no first move, for a board
  whose move stack is not empty and whose last move has the UCI text \<open>text\<close>, a call to
  \<^verbatim>\<open>play\<close> writes exactly the line \<open>text\<close> to the child process, whatever lines come
  back; it stays blocked while no line has been received; and the first line received
  ends the call when it is \<^verbatim>\<open>invalid\<close> on a board with a legal move (a resignation
  carrying the first legal move) or when it is the UCI text of a move (that move).
\<close>

theorem play_sends_last_move:
  assumes "initialized e" "first_move e = []" "move_stack board \<noteq> []"
    "uci (last (move_stack board)) = Inr text"
  shows "stdin_lines (fst (play board lines e)) = stdin_lines e @ [text]
     \<and> play board [] e = (e\<lparr>stdin_lines := stdin_lines e @ [text]\<rparr>, Blocked)
     \<and> (legal_moves board = m # ms \<longrightarrow>
          play board (''invalid'' # rest) e
            = (e\<lparr>stdin_lines := stdin_lines e @ [text]\<rparr>,
               Returned (PlayResult_new (Some m) None True)))
     \<and> (line \<noteq> ''invalid'' \<and> from_uci line = Inr m' \<longrightarrow>
          play board (line # rest) e
            = (e\<lparr>stdin_lines := stdin_lines e @ [text]\<rparr>,
               Returned (PlayResult_new (Some m') None False)))"
proof -
  let ?e = "e\<lparr>stdin_lines := stdin_lines e @ [text]\<rparr>"
  let ?c = "BaseCommand_init\<lparr>state := ACTIVE\<rparr> :: PlayResult BaseCommand"
  have st: "command_start (PlayCommand board) (e, BaseCommand_init) = (None, (?e, ?c))"
    using assms by (rule play_start_sends)
  have pl: "\<And>ls. play board ls e = await_result (PlayCommand board) ls (?e, ?c)"
    by (simp add: play_def communicate_def st)
  have c: "state ?c = ACTIVE" "result ?c = Pending" "\<not> finished ?c"
    by (simp_all add: BaseCommand_init_def)
  have 1: "stdin_lines (fst (play board lines e)) = stdin_lines e @ [text]"
    by (simp add: pl await_play_engine)
  have 2: "play board [] e = (?e, Blocked)"
    by (simp add: pl c)
  have 3: "legal_moves board = m # ms \<Longrightarrow>
      play board (''invalid'' # rest) e = (?e, Returned (PlayResult_new (Some m) None True))"
    by (simp add: pl c play_line_resign[OF c] await_result_done)
  have 4: "line \<noteq> ''invalid'' \<Longrightarrow> from_uci line = Inr m' \<Longrightarrow>
      play board (line # rest) e = (?e, Returned (PlayResult_new (Some m') None False))"
    by (simp add: pl c play_line_move[OF c] await_result_done)
  show ?thesis using 1 2 3 4 by blast
qed

theorem play_sends_last_move_witness:
  "initialized example_engine \<and> first_move example_engine = []
   \<and> move_stack example_board \<noteq> []
   \<and> uci (last (move_stack example_board)) = Inr ''e2e4''
   \<and> legal_moves example_board = example_e7e5 # [example_d7d5]
   \<and> ''e7e5'' \<noteq> ''invalid'' \<and> from_uci ''e7e5'' = Inr example_e7e5
   \<and> play example_board [] example_engine
       = (example_engine\<lparr>stdin_lines := stdin_lines example_engine @ [''e2e4'']\<rparr>, Blocked)
   \<and> play example_board [''invalid''] example_engine
       = (example_engine\<lparr>stdin_lines := stdin_lines example_engine @ [''e2e4'']\<rparr>,
          Returned (PlayResult_new (Some example_e7e5) None True))
   \<and> play example_board [''e7e5''] example_engine
       = (example_engine\<lparr>stdin_lines := stdin_lines example_engine @ [''e2e4'']\<rparr>,
          Returned (PlayResult_new (Some example_e7e5) None False))"
proof -
  have h: "initialized example_engine" "first_move example_engine = []"
    "move_stack example_board \<noteq> []" "uci (last (move_stack example_board)) = Inr ''e2e4''"
    by (simp_all add: example_engine_def example_board_def uci_e2e4)
  have l: "legal_moves example_board = example_e7e5 # [example_d7d5]"
    by (simp add: example_board_def)
  have u: "''e7e5'' \<noteq> ''invalid''" "from_uci ''e7e5'' = Inr example_e7e5"
    by (simp_all add: from_uci_e7e5)
  show ?thesis
    using h l u
      play_sends_last_move[OF h, where m = example_e7e5 and ms = "[example_d7d5]"
        and line = "''e7e5''" and m' = example_e7e5 and rest = "[]" and lines = "[]"]
    by simp
qed

subsection \<open>C2: the line the child replies with\<close>

text \<open>
  Claim C2, as stated, says that every reply line gives a \<^verbatim>\<open>PlayResult\<close>: a resignation
  for \<^verbatim>\<open>invalid\<close>, the parsed move otherwise. It fails for \<^verbatim>\<open>invalid\<close> on a board with no
  legal move, where \<^verbatim>\<open>next(iter(board.legal_moves))\<close> raises \<^verbatim>\<open>StopIteration\<close>, and for a
  line that is no UCI move text, where \<^verbatim>\<open>Move.from_uci\<close> raises \<^verbatim>\<open>ValueError\<close>: in both
  cases \<^verbatim>\<open>line_received\<close> raises, no result is set and the call does not return.
\<close>

theorem play_reply_counterexample:
  "play example_board_no_moves [''invalid''] example_engine
     = (\<lparr>initialized = True, first_move = [], stdin_lines = [''e2e4'']\<rparr>, Blocked)
   \<and> fst (line_received (PlayCommand example_board_no_moves) ''invalid''
            (example_engine, example_command)) = Some StopIteration
   \<and> play example_board [''hello''] example_engine
     = (\<lparr>initialized = True, first_move = [], stdin_lines = [''e2e4'']\<rparr>, Blocked)
   \<and> fst (line_received (PlayCommand example_board) ''hello''
            (example_engine, example_command)) = Some ValueError"
  by (simp add: play_def communicate_def example_engine_def example_board_no_moves_def
      example_board_def uci_e2e4 from_uci_hello PlayCommand_def stmt_defs)

text \<open>
  Claim C2, amended: during a play exchange (the command is active and its result is
  pending), when the child replies \<^verbatim>\<open>invalid\<close> and the board has a legal move, \<^verbatim>\<open>play\<close>
  returns a \<^verbatim>\<open>PlayResult\<close> with \<^verbatim>\<open>resigned\<close> set and the first legal move as its move;
  when the child replies with any other line that is the UCI text of a move, \<^verbatim>\<open>play\<close>
  returns a \<^verbatim>\<open>PlayResult\<close> with that move, not resigned. Later lines change nothing.
\<close>

theorem play_reply_parsed:
  assumes "state c = ACTIVE" "result c = Pending" "\<not> finished c"
  shows "(line = ''invalid'' \<and> legal_moves board = m # ms \<longrightarrow>
            await_result (PlayCommand board) (line # rest) (e, c)
              = (e, Returned (PlayResult_new (Some m) None True)))
       \<and> (line \<noteq> ''invalid'' \<and> from_uci line = Inr m' \<longrightarrow>
            await_result (PlayCommand board) (line # rest) (e, c)
              = (e, Returned (PlayResult_new (Some m') None False)))"
proof -
  have 1: "line = ''invalid'' \<Longrightarrow> legal_moves board = m # ms \<Longrightarrow>
      await_result (PlayCommand board) (line # rest) (e, c)
        = (e, Returned (PlayResult_new (Some m) None True))"
    using assms by (simp add: play_line_resign await_result_done)
  have 2: "line \<noteq> ''invalid'' \<Longrightarrow> from_uci line = Inr m' \<Longrightarrow>
      await_result (PlayCommand board) (line # rest) (e, c)
        = (e, Returned (PlayResult_new (Some m') None False))"
    using assms by (simp add: play_line_move await_result_done)
  show ?thesis using 1 2 by blast
qed

theorem play_reply_parsed_witness:
  "state example_command = ACTIVE \<and> result example_command = Pending
   \<and> \<not> finished example_command
   \<and> legal_moves example_board = example_e7e5 # [example_d7d5]
   \<and> await_result (PlayCommand example_board) [''invalid''] (example_engine, example_command)
       = (example_engine, Returned (PlayResult_new (Some example_e7e5) None True))
   \<and> ''e2e4'' \<noteq> ''invalid'' \<and> from_uci ''e2e4'' = Inr example_e2e4
   \<and> await_result (PlayCommand example_board) [''e2e4''] (example_engine, example_command)
       = (example_engine, Returned (PlayResult_new (Some example_e2e4) None False))"
proof -
  have h: "state example_command = ACTIVE" "result example_command = Pending"
    "\<not> finished example_command"
    by (simp_all add: example_command_def)
  have l: "legal_moves example_board = example_e7e5 # [example_d7d5]"
    by (simp add: example_board_def)
  have u: "''e2e4'' \<noteq> ''invalid''" "from_uci ''e2e4'' = Inr example_e2e4"
    by (simp_all add: from_uci_e2e4)
  show ?thesis
    using h l u
      play_reply_parsed[OF h, where line = "''invalid''" and board = example_board
        and m = example_e7e5 and ms = "[example_d7d5]" and rest = "[]" and e = example_engine]
      play_reply_parsed[OF h, where line = "''e2e4''" and board = example_board
        and m' = example_e2e4 and rest = "[]" and e = example_engine]
    by simp
qed

subsection \<open>C3: the alphabetical strategy\<close>

text \<open>
  Claim C3: on a board with at least one legal move, \<^verbatim>\<open>Alphabetical.search\<close> returns a
  \<^verbatim>\<open>PlayResult\<close> whose move is a legal move with the least algebraic notation
  \<^verbatim>\<open>board.san\<close> in the lexicographic order of strings; among legal moves with that
  notation it is the one the board yields first.
\<close>

theorem Alphabetical_search_first:
  assumes "legal_moves board \<noteq> []"
  shows "\<exists>m. Alphabetical_search board = Inr (PlayResult_new (Some m) None False)
           \<and> m \<in> set (legal_moves board)
           \<and> (\<forall>m'\<in>set (legal_moves board). san board m \<le> san board m')
           \<and> find (\<lambda>m'. san board m' = san board m) (legal_moves board) = Some m"
proof -
  let ?s = "sort_key (san board) (legal_moves board)"
  have "?s \<noteq> []" using assms by (metis length_sort length_0_conv)
  then have "Alphabetical_search board = Inr (PlayResult_new (Some (hd ?s)) None False)"
    by (cases ?s)
       (simp_all add: Alphabetical_search_def list_sort_total bind_exn_def getitem_def)
  then show ?thesis
    using hd_sort_key_least[OF assms, of "san board"] hd_sort_key_first[OF assms, of "san board"]
    by blast
qed

theorem Alphabetical_search_first_witness:
  "legal_moves example_board \<noteq> []
   \<and> Alphabetical_search example_board = Inr (PlayResult_new (Some example_d7d5) None False)"
proof -
  have h: "legal_moves example_board \<noteq> []" by (simp add: example_board_def)
  from Alphabetical_search_first[OF h] obtain m where
    r: "Alphabetical_search example_board = Inr (PlayResult_new (Some m) None False)"
    and m: "m \<in> set (legal_moves example_board)"
    and least: "\<forall>m'\<in>set (legal_moves example_board). san example_board m \<le> san example_board m'"
    by blast
  have "m \<noteq> example_e7e5"
  proof
    assume "m = example_e7e5"
    then have "san example_board example_e7e5 \<le> san example_board example_d7d5"
      using least by (simp add: example_board_def)
    then show False
      by (simp add: example_board_def example_e7e5_def example_d7d5_def less_eq_char_def)
  qed
  then have "m = example_d7d5" using m by (simp add: example_board_def)
  then show ?thesis using h r by simp
qed

subsection \<open>C4: \<^verbatim>\<open>configure\<close> writes the color\<close>

text \<open>
  Claim C4, as stated, says that every call to \<^verbatim>\<open>CO456Protocol.configure\<close> whose options
  hold a \<^verbatim>\<open>color\<close> writes it to the child process. It fails on an engine that has not
  been initialized: \<^verbatim>\<open>ConfigureCommand\<close> keeps the library's \<^verbatim>\<open>check_initialized\<close>, which
  raises \<^verbatim>\<open>EngineError\<close> before \<^verbatim>\<open>start\<close> runs, so the call raises and nothing is written.
  The evaluation is at the engine as \<^verbatim>\<open>__init__\<close> leaves it.
\<close>

theorem configure_uninitialized_counterexample:
  "configure example_options [''e2e4''] CO456Protocol_init
     = (\<lparr>initialized = False, first_move = [], stdin_lines = []\<rparr>,
        Raised (EngineError ''tried to run command, but engine is not initialized''))
   \<and> stdin_lines (fst (configure example_options [''e2e4''] CO456Protocol_init)) = []"
  by (simp add: configure_def communicate_def example_options_def CO456Protocol_init_def
      ConfigureCommand_def stmt_defs)

text \<open>
  Claim C4, amended: on an initialized engine, for every call to
  \<^verbatim>\<open>CO456Protocol.configure\<close> whose options hold a string \<open>v\<close> (the color designator
  \<^verbatim>\<open>white\<close> or \<^verbatim>\<open>black\<close>) under the key \<^verbatim>\<open>color\<close>, the call writes \<open>v\<close> as exactly one line to
  the child process, whatever lines the child replies with. The write is the first
  statement of \<^verbatim>\<open>ConfigureCommand.start\<close>, which performs it on every engine and command
  it is run on.
\<close>

theorem configure_writes_color:
  assumes "initialized e" "options ''color'' = Some (ConfigStr v)"
  shows "stdin_lines (fst (configure options lines e)) = stdin_lines e @ [v]
       \<and> stdin_lines (fst (snd (start (ConfigureCommand options) (e', c)))) = stdin_lines e' @ [v]"
proof -
  let ?e = "e\<lparr>stdin_lines := stdin_lines e @ [v]\<rparr>"
  have "\<exists>c'. command_start (ConfigureCommand options) (e, BaseCommand_init) = (None, (?e, c'))"
    using assms by (simp add: ConfigureCommand_def stmt_defs)
  then obtain c' where
    "command_start (ConfigureCommand options) (e, BaseCommand_init) = (None, (?e, c'))"
    by blast
  then have "configure options lines e = await_result (ConfigureCommand options) lines (?e, c')"
    by (simp add: configure_def communicate_def)
  then have 1: "stdin_lines (fst (configure options lines e)) = stdin_lines e @ [v]"
    by (simp add: await_configure_stdin)
  have 2: "stdin_lines (fst (snd (start (ConfigureCommand options) (e', c)))) = stdin_lines e' @ [v]"
    using assms(2) by (simp add: ConfigureCommand_def stmt_defs Let_def)
  show ?thesis using 1 2 by blast
qed

theorem configure_writes_color_witness:
  "initialized example_engine \<and> example_options ''color'' = Some (ConfigStr ''white'')
   \<and> stdin_lines (fst (configure example_options [''e2e4''] example_engine)) = [''white'']"
proof -
  have h: "initialized example_engine" "example_options ''color'' = Some (ConfigStr ''white'')"
    by (simp_all add: example_engine_def example_options_def)
  have i: "stdin_lines example_engine = []"
    by (simp add: example_engine_def)
  show ?thesis
    using h i
      configure_writes_color[where options = example_options and v = "''white''"
        and e = example_engine and e' = example_engine and c = BaseCommand_init
        and lines = "[''e2e4'']", OF h]
    by simp
qed

subsection \<open>C5: \<^verbatim>\<open>MinimalEngine.search\<close>\<close>

text \<open>
  Claim C5: for every board, time limit, ponder flag and draw-offered flag,
  \<^verbatim>\<open>MinimalEngine.search\<close> raises \<^verbatim>\<open>NotImplementedError\<close> and returns no \<^verbatim>\<open>PlayResult\<close>.
\<close>

theorem MinimalEngine_search_raises:
  "MinimalEngine_search board time_limit ponder_flag draw_offered_flag
     = Inl (NotImplementedError ''The search method is not implemented'')
   \<and> (\<forall>r. MinimalEngine_search board time_limit ponder_flag draw_offered_flag \<noteq> Inr r)"
  by (simp add: MinimalEngine_search_def)

subsection \<open>C6: a request completes only on a reply, or by the caller's timer\<close>




subsection \<open>C7: attribute access on a \<^verbatim>\<open>FillerEngine\<close>\<close>

text \<open>
  Claim C7, as stated, says that every attribute name is forwarded to
  \<^verbatim>\<open>main_engine.notify\<close>. It fails for the attributes that \<^verbatim>\<open>__init__\<close> stores: Python
  finds \<^verbatim>\<open>name\<close> and \<^verbatim>\<open>main_engine\<close> in the instance dictionary and never calls
  \<^verbatim>\<open>__getattr__\<close> for them, so the access yields the stored value, no call to
  \<^verbatim>\<open>notify\<close> is made, and calling the stored name raises \<^verbatim>\<open>TypeError\<close>.
\<close>

theorem getattr_counterexample:
  "getattribute [] example_filler ''name'' = Inr (Stored (PyStr ''homemade''))
   \<and> getattribute [] example_filler ''main_engine'' = Inr (Stored (PyObject 0))
   \<and> access_and_call (\<lambda>m n (a::nat list) k. (m, n, a, k)) []
        example_filler ''name'' [1] [] = Some (Inl TypeError)"
  by (simp add: getattribute_def example_filler_def FillerEngine_init_def
      access_and_call_def Let_def)

text \<open>
  Claim C7, amended: for a \<^verbatim>\<open>FillerEngine\<close> whose \<^verbatim>\<open>main_engine\<close> attribute holds the main
  engine, for every attribute name that the object does not store (\<^verbatim>\<open>id\<close>, \<^verbatim>\<open>name\<close> and
  \<^verbatim>\<open>main_engine\<close> are stored) and that is not found on its type, and for every argument
  list, accessing the attribute yields the forwarding closure, and calling it is the
  call of \<^verbatim>\<open>main_engine.notify\<close> with that name and those arguments.
\<close>

theorem getattr_forwards:
  assumes "self ''main_engine'' = Some (PyObject main_engine)" "self attr = None"
    "attr \<notin> set class_attrs"
  shows "getattribute class_attrs self attr = Inr (Forwarder attr (PyObject main_engine))
       \<and> access_and_call notify class_attrs self attr args kwargs
           = Some (Inr (notify main_engine attr args kwargs))"
  using assms
  by (simp add: getattribute_def FillerEngine_getattr_def access_and_call_def method_call_def)

theorem getattr_forwards_witness:
  "example_filler ''main_engine'' = Some (PyObject 0) \<and> example_filler ''quit'' = None
   \<and> ''quit'' \<notin> set [''__init__'', ''__getattr__'']
   \<and> access_and_call (\<lambda>m n (a::nat list) k. (m, n, a, k)) [''__init__'', ''__getattr__'']
        example_filler ''quit'' [1] [] = Some (Inr (0, ''quit'', [1], []))"
proof -
  have h: "example_filler ''main_engine'' = Some (PyObject 0)" "example_filler ''quit'' = None"
    "''quit'' \<notin> set [''__init__'', ''__getattr__'']"
    by (simp_all add: example_filler_def FillerEngine_init_def Let_def)
  show ?thesis
    using h getattr_forwards[OF h, of "\<lambda>m n (a::nat list) k. (m, n, a, k)" "[1]" "[]"]
    by simp
qed

subsection \<open>C8: the first move stored by \<^verbatim>\<open>configure\<close>\<close>

text \<open>
  Claim C8, as stated, says that after \<^verbatim>\<open>configure\<close> with color \<^verbatim>\<open>white\<close> and a reply line,
  the next \<^verbatim>\<open>play\<close> returns that line parsed as UCI, clears \<^verbatim>\<open>first_move\<close> and sends
  nothing. The line is stored in every case, but the rest fails for an empty reply
  line, which \<^verbatim>\<open>PlayCommand.start\<close> takes for no stored move (it then writes the last
  move of the board and waits), and for a line that is no UCI move text, where
  \<^verbatim>\<open>Move.from_uci\<close> raises \<^verbatim>\<open>ValueError\<close> and \<^verbatim>\<open>first_move\<close> keeps the line.
\<close>

theorem configure_white_counterexample:
  "configure example_options [[]] example_engine
     = (\<lparr>initialized = True, first_move = [], stdin_lines = [''white'']\<rparr>, Returned ())
   \<and> play example_board []
        \<lparr>initialized = True, first_move = [], stdin_lines = [''white'']\<rparr>
     = (\<lparr>initialized = True, first_move = [], stdin_lines = [''white'', ''e2e4'']\<rparr>, Blocked)
   \<and> configure example_options [''hello''] example_engine
     = (\<lparr>initialized = True, first_move = ''hello'', stdin_lines = [''white'']\<rparr>, Returned ())
   \<and> play example_board []
        \<lparr>initialized = True, first_move = ''hello'', stdin_lines = [''white'']\<rparr>
     = (\<lparr>initialized = True, first_move = ''hello'', stdin_lines = [''white'']\<rparr>,
        Raised ValueError)"
  by (simp add: configure_def play_def communicate_def example_options_def example_engine_def
      example_board_def uci_e2e4 from_uci_hello ConfigureCommand_def PlayCommand_def stmt_defs)

text \<open>
  Claim C8, amended: on an initialized engine, when \<^verbatim>\<open>configure\<close> is called with color
  \<^verbatim>\<open>white\<close> and the child replies with a line that is the UCI text of a move (so not
  empty), the call writes \<^verbatim>\<open>white\<close>, stores the line in \<^verbatim>\<open>first_move\<close> and returns; the
  next call to \<^verbatim>\<open>play\<close>, on any board and whatever the child writes, returns a
  \<^verbatim>\<open>PlayResult\<close> whose move is that line parsed as UCI, resets \<^verbatim>\<open>first_move\<close> to the empty
  string and writes nothing to the child process.
\<close>

theorem configure_white_then_play:
  assumes "initialized e" "options ''color'' = Some (ConfigStr ''white'')"
    "from_uci line = Inr m"
  shows "configure options (line # rest) e
           = (e\<lparr>stdin_lines := stdin_lines e @ [''white''], first_move := line\<rparr>, Returned ())
       \<and> play board lines (e\<lparr>stdin_lines := stdin_lines e @ [''white''], first_move := line\<rparr>)
           = (e\<lparr>stdin_lines := stdin_lines e @ [''white''], first_move := []\<rparr>,
              Returned (PlayResult_new (Some m) None False))"
proof -
  let ?e = "e\<lparr>stdin_lines := stdin_lines e @ [''white''], first_move := line\<rparr>"
  have ne: "line \<noteq> []" using assms(3) by (auto simp: from_uci_empty)
  have 1: "configure options (line # rest) e = (?e, Returned ())"
    using assms(1,2)
    by (cases rest) (simp_all add: configure_def communicate_def ConfigureCommand_def stmt_defs)
  have "command_start (PlayCommand board) (?e, BaseCommand_init)
     = (None, (?e\<lparr>first_move := []\<rparr>,
          \<lparr>state = DONE, result = Result (PlayResult_new (Some m) None False), finished = True\<rparr>))"
    using assms ne by (intro play_start_first_move) simp_all
  then have 2: "play board lines ?e
           = (e\<lparr>stdin_lines := stdin_lines e @ [''white''], first_move := []\<rparr>,
              Returned (PlayResult_new (Some m) None False))"
    by (simp add: play_def communicate_def await_result_done)
  show ?thesis using 1 2 by blast
qed

theorem configure_white_then_play_witness:
  "initialized example_engine \<and> example_options ''color'' = Some (ConfigStr ''white'')
   \<and> from_uci ''e2e4'' = Inr example_e2e4
   \<and> configure example_options [''e2e4''] example_engine
       = (\<lparr>initialized = True, first_move = ''e2e4'', stdin_lines = [''white'']\<rparr>, Returned ())
   \<and> play example_board_start []
        \<lparr>initialized = True, first_move = ''e2e4'', stdin_lines = [''white'']\<rparr>
       = (\<lparr>initialized = True, first_move = [], stdin_lines = [''white'']\<rparr>,
          Returned (PlayResult_new (Some example_e2e4) None False))"
proof -
  have h: "initialized example_engine" "example_options ''color'' = Some (ConfigStr ''white'')"
    "from_uci ''e2e4'' = Inr example_e2e4"
    by (simp_all add: example_engine_def example_options_def from_uci_e2e4)
  show ?thesis
    using h
      configure_white_then_play[where options = example_options and e = example_engine
        and line = "''e2e4''" and m = example_e2e4 and rest = "[]"
        and board = example_board_start and lines = "[]", OF h]
    by (simp add: example_engine_def)
qed

subsection \<open>C9: the strategies need a legal move\<close>

text \<open>
  Claim C9: on a board with no legal move, \<^verbatim>\<open>RandomMove.search\<close> (choice from an empty
  sequence), \<^verbatim>\<open>Alphabetical.search\<close> and \<^verbatim>\<open>FirstMove.search\<close> (index 0 of an empty list)
  raise \<^verbatim>\<open>IndexError\<close>, and the resignation branch of \<^verbatim>\<open>PlayCommand.line_received\<close> raises
  \<^verbatim>\<open>StopIteration\<close> and leaves the engine and the command as they were: none of them
  gives a \<^verbatim>\<open>PlayResult\<close>.
\<close>

theorem search_needs_legal_move:
  assumes "legal_moves board = []"
  shows "RandomMove_search rng board = Inl IndexError
       \<and> Alphabetical_search board = Inl IndexError
       \<and> FirstMove_search board = Inl IndexError
       \<and> line_received (PlayCommand board) ''invalid'' s = (Some StopIteration, s)"
  using assms
  by (simp add: RandomMove_search_def Alphabetical_search_def FirstMove_search_def
      random_choice_def list_sort_def bind_exn_def getitem_def PlayCommand_def seq_def raise_def)

theorem search_needs_legal_move_witness:
  "legal_moves example_board_no_moves = []
   \<and> RandomMove_search 3 example_board_no_moves = Inl IndexError
   \<and> Alphabetical_search example_board_no_moves = Inl IndexError
   \<and> FirstMove_search example_board_no_moves = Inl IndexError
   \<and> line_received (PlayCommand example_board_no_moves) ''invalid''
        (example_engine, example_command)
       = (Some StopIteration, (example_engine, example_command))"
proof -
  have h: "legal_moves example_board_no_moves = []"
    by (simp add: example_board_no_moves_def)
  show ?thesis
    using h search_needs_legal_move[OF h, of 3 "(example_engine, example_command)"] by simp
qed

subsection \<open>C10: \<^verbatim>\<open>initialize\<close>\<close>

text \<open>
  Claim C10: a call to \<^verbatim>\<open>CO456Protocol.initialize\<close> on an engine that is not initialized
  (the first call) sets \<^verbatim>\<open>initialized\<close>, changes nothing else, writes nothing to the
  child process and returns; a call on an initialized engine (every later call) raises
  \<^verbatim>\<open>EngineError\<close> with the text \<^verbatim>\<open>engine already initialized\<close> and leaves the engine as it
  was.
\<close>

theorem initialize_once:
  "(\<not> initialized e \<longrightarrow>
        initialize lines e = (e\<lparr>initialized := True\<rparr>, Returned ())
      \<and> stdin_lines (fst (initialize lines e)) = stdin_lines e)
   \<and> (initialized e \<longrightarrow>
        initialize lines e = (e, Raised (EngineError ''engine already initialized'')))"
  by (cases lines) (simp_all add: initialize_def communicate_def InitializeCommand_def stmt_defs)

theorem initialize_once_witness:
  "\<not> initialized CO456Protocol_init
   \<and> initialize [] CO456Protocol_init
       = (\<lparr>initialized = True, first_move = [], stdin_lines = []\<rparr>, Returned ())
   \<and> initialized (fst (initialize [] CO456Protocol_init))
   \<and> initialize [] (fst (initialize [] CO456Protocol_init))
       = (\<lparr>initialized = True, first_move = [], stdin_lines = []\<rparr>,
          Raised (EngineError ''engine already initialized''))"
proof -
  have h: "\<not> initialized CO456Protocol_init" by (simp add: CO456Protocol_init_def)
  have 1: "initialize [] CO456Protocol_init
       = (\<lparr>initialized = True, first_move = [], stdin_lines = []\<rparr>, Returned ())"
    using h initialize_once[of CO456Protocol_init "[]"] by (simp add: CO456Protocol_init_def)
  have 2: "initialize [] \<lparr>initialized = True, first_move = [], stdin_lines = []\<rparr>
       = (\<lparr>initialized = True, first_move = [], stdin_lines = []\<rparr>,
          Raised (EngineError ''engine already initialized''))"
    using initialize_once[of "\<lparr>initialized = True, first_move = [], stdin_lines = []\<rparr>" "[]"]
    by simp
  show ?thesis using h 1 2 by simp
qed

end
